theory Spec2Isabelle
  imports Main "HOL-Library.Word" "HOL-Library.List_Lexorder"
begin

unbundle bit_operations_syntax

section \<open>Bytes, struct packing and CRC32\<close>

text \<open>
  A Python \<open>bytes\<close> object is a list of octets. Python compares \<open>bytes\<close>
  lexicographically on unsigned octets, a proper prefix being smaller; this is the order
  that \<open>HOL-Library.List_Lexorder\<close> puts on lists of words (words are ordered
  as unsigned numbers).
\<close>

type_synonym byte = "8 word"
type_synonym bytes = "byte list"

text \<open>The slice \<open>data[a:b]\<close> for \<open>0 \<le> a\<close> and \<open>0 \<le> b\<close>.\<close>

definition slice :: "bytes \<Rightarrow> nat \<Rightarrow> nat \<Rightarrow> bytes" where
  "slice data a b = take (b - a) (drop a data)"

text \<open>
  The exceptions the three modules can raise. All of the repository's own \<open>raise\<close>
  statements raise \<open>ValueError\<close> and differ in the message; the string kept here is the
  constant head of the message. \<open>struct.error\<close> is what \<open>struct.pack\<close> raises for a
  number outside the range of its field and \<open>struct.unpack\<close> for a buffer of the wrong
  size. \<open>AttributeError\<close> is a method call on \<open>self._file\<close> when it is \<open>None\<close>,
  \<open>TypeError\<close> is \<open>len(None)\<close>.
\<close>

datatype error = ValueError string | StructError | AttributeError | TypeError

text \<open>Little-endian fields of \<open>struct\<close>: \<open>I\<close> is 4 octets, \<open>Q\<close> is 8.\<close>

primrec le_bytes :: "nat \<Rightarrow> nat \<Rightarrow> bytes" where
  "le_bytes 0 n = []"
| "le_bytes (Suc k) n = of_nat (n mod 256) # le_bytes k (n div 256)"

primrec from_le :: "bytes \<Rightarrow> nat" where
  "from_le [] = 0"
| "from_le (b # bs) = unat b + 256 * from_le bs"

definition pack_I :: "nat \<Rightarrow> error + bytes" where
  "pack_I n = (if n < 2 ^ 32 then Inr (le_bytes 4 n) else Inl StructError)"

definition pack_Q :: "nat \<Rightarrow> error + bytes" where
  "pack_Q n = (if n < 2 ^ 64 then Inr (le_bytes 8 n) else Inl StructError)"

text \<open>\<open>struct.pack('<QII', a, b, c)\<close>\<close>

definition pack_QII :: "nat \<Rightarrow> nat \<Rightarrow> nat \<Rightarrow> error + bytes" where
  "pack_QII a b c =
     (if a < 2 ^ 64 \<and> b < 2 ^ 32 \<and> c < 2 ^ 32
      then Inr (le_bytes 8 a @ le_bytes 4 b @ le_bytes 4 c) else Inl StructError)"

text \<open>\<open>struct.pack('<II', a, b)\<close>\<close>

definition pack_II :: "nat \<Rightarrow> nat \<Rightarrow> error + bytes" where
  "pack_II a b =
     (if a < 2 ^ 32 \<and> b < 2 ^ 32
      then Inr (le_bytes 4 a @ le_bytes 4 b) else Inl StructError)"

text \<open>\<open>struct.pack('<QQ', a, b)\<close>\<close>

definition pack_QQ :: "nat \<Rightarrow> nat \<Rightarrow> error + bytes" where
  "pack_QQ a b =
     (if a < 2 ^ 64 \<and> b < 2 ^ 64
      then Inr (le_bytes 8 a @ le_bytes 8 b) else Inl StructError)"

text \<open>\<open>struct.pack('<QIQ I', a, b, c, d)\<close>: no padding with \<open><\<close>, 24 octets.\<close>

definition pack_QIQI :: "nat \<Rightarrow> nat \<Rightarrow> nat \<Rightarrow> nat \<Rightarrow> error + bytes" where
  "pack_QIQI a b c d =
     (if a < 2 ^ 64 \<and> b < 2 ^ 32 \<and> c < 2 ^ 64 \<and> d < 2 ^ 32
      then Inr (le_bytes 8 a @ le_bytes 4 b @ le_bytes 8 c @ le_bytes 4 d)
      else Inl StructError)"

definition unpack_I :: "bytes \<Rightarrow> error + nat" where
  "unpack_I bs = (if length bs = 4 then Inr (from_le bs) else Inl StructError)"

definition unpack_Q :: "bytes \<Rightarrow> error + nat" where
  "unpack_Q bs = (if length bs = 8 then Inr (from_le bs) else Inl StructError)"

definition unpack_QII :: "bytes \<Rightarrow> error + nat \<times> nat \<times> nat" where
  "unpack_QII bs =
     (if length bs = 16
      then Inr (from_le (take 8 bs), from_le (slice bs 8 12), from_le (slice bs 12 16))
      else Inl StructError)"

definition unpack_II :: "bytes \<Rightarrow> error + nat \<times> nat" where
  "unpack_II bs =
     (if length bs = 8
      then Inr (from_le (take 4 bs), from_le (slice bs 4 8))
      else Inl StructError)"

definition unpack_QQ :: "bytes \<Rightarrow> error + nat \<times> nat" where
  "unpack_QQ bs =
     (if length bs = 16
      then Inr (from_le (take 8 bs), from_le (slice bs 8 16))
      else Inl StructError)"

definition unpack_QIQI :: "bytes \<Rightarrow> error + nat \<times> nat \<times> nat \<times> nat" where
  "unpack_QIQI bs =
     (if length bs = 24
      then Inr (from_le (take 8 bs), from_le (slice bs 8 12),
                from_le (slice bs 12 20), from_le (slice bs 20 24))
      else Inl StructError)"

text \<open>
  \<open>binascii.crc32\<close> is the CRC-32 of zlib: reflected polynomial \<open>0xEDB88320\<close>,
  register preset to all ones, result complemented. Bit by bit on a 32-bit register:
\<close>

definition crc_step :: "32 word \<Rightarrow> 32 word" where
  "crc_step c = (if bit c 0 then drop_bit 1 c XOR 0xEDB88320 else drop_bit 1 c)"

primrec crc_bits :: "nat \<Rightarrow> 32 word \<Rightarrow> 32 word" where
  "crc_bits 0 c = c"
| "crc_bits (Suc k) c = crc_bits k (crc_step c)"

definition crc_byte :: "32 word \<Rightarrow> byte \<Rightarrow> 32 word" where
  "crc_byte c b = crc_bits 8 (c XOR ucast b)"

definition crc32 :: "bytes \<Rightarrow> nat" where
  "crc32 data = unat (foldl crc_byte 0xFFFFFFFF data XOR 0xFFFFFFFF)"

text \<open>The tombstone marker of both file formats.\<close>

definition TOMBSTONE_MARKER :: nat where
  "TOMBSTONE_MARKER = 0xFFFFFFFF"

section \<open>Memtable (memtable.py)\<close>

text \<open>
  A value stored in the memtable is a \<open>bytes\<close> object or the sentinel object
  \<open>Memtable.TOMBSTONE\<close>.
\<close>

datatype mvalue = Value bytes | TOMBSTONE

text \<open>
  \<open>sortedcontainers.SortedDict\<close>: a dictionary whose \<open>items()\<close> come in increasing
  key order. It is kept as the list of its items; \<open>sd_setitem\<close> is \<open>d[key] = value\<close>
  and \<open>sd_get\<close> is \<open>d.get(key)\<close>.
\<close>

fun sd_setitem :: "bytes \<Rightarrow> 'v \<Rightarrow> (bytes \<times> 'v) list \<Rightarrow> (bytes \<times> 'v) list" where
  "sd_setitem k v [] = [(k, v)]"
| "sd_setitem k v ((k', v') # d) =
     (if k < k' then (k, v) # (k', v') # d
      else if k = k' then (k, v) # d
      else (k', v') # sd_setitem k v d)"

definition sd_get :: "(bytes \<times> 'v) list \<Rightarrow> bytes \<Rightarrow> 'v option" where
  "sd_get d k = map_of d k"

record memtable =
  mt_data :: "(bytes \<times> mvalue) list"
  mt_max_size_bytes :: int
  mt_size_bytes :: int

definition DEFAULT_MAX_SIZE :: int where
  "DEFAULT_MAX_SIZE = 4 * 1024 * 1024"

definition Memtable_init :: "int \<Rightarrow> memtable" where
  "Memtable_init max_size = \<lparr>mt_data = [], mt_max_size_bytes = max_size, mt_size_bytes = 0\<rparr>"

text \<open>
  \<open>_get_entry_size\<close>. \<open>sys.getsizeof\<close> depends on the platform and is a parameter
  \<open>gs\<close> of every operation that accounts for size.
\<close>

definition get_entry_size :: "(bytes \<Rightarrow> int) \<Rightarrow> bytes \<Rightarrow> mvalue option \<Rightarrow> int" where
  "get_entry_size gs k v =
     (case v of
        None \<Rightarrow> 0
      | Some x \<Rightarrow>
          int (length k) + (case x of TOMBSTONE \<Rightarrow> 4 | Value b \<Rightarrow> int (length b))
            + (gs k - int (length k)) + 48)"

definition put :: "(bytes \<Rightarrow> int) \<Rightarrow> memtable \<Rightarrow> bytes \<Rightarrow> bytes \<Rightarrow> memtable" where
  "put gs m k v =
     (let old_size = get_entry_size gs k (sd_get (mt_data m) k);
          new_size = get_entry_size gs k (Some (Value v))
      in m\<lparr>mt_data := sd_setitem k (Value v) (mt_data m),
           mt_size_bytes := mt_size_bytes m - old_size + new_size\<rparr>)"

text \<open>\<open>Memtable.get\<close>: \<open>None\<close> for a tombstone and for a key that is not there.\<close>

definition get :: "memtable \<Rightarrow> bytes \<Rightarrow> bytes option" where
  "get m k =
     (case sd_get (mt_data m) k of
        Some TOMBSTONE \<Rightarrow> None
      | Some (Value v) \<Rightarrow> Some v
      | None \<Rightarrow> None)"

definition delete :: "(bytes \<Rightarrow> int) \<Rightarrow> memtable \<Rightarrow> bytes \<Rightarrow> memtable" where
  "delete gs m k =
     (let old_size = get_entry_size gs k (sd_get (mt_data m) k);
          new_size = get_entry_size gs k (Some TOMBSTONE)
      in m\<lparr>mt_data := sd_setitem k TOMBSTONE (mt_data m),
           mt_size_bytes := mt_size_bytes m - old_size + new_size\<rparr>)"

definition is_full :: "memtable \<Rightarrow> bool" where
  "is_full m = (mt_size_bytes m \<ge> mt_max_size_bytes m)"

definition num_entries :: "memtable \<Rightarrow> nat" where
  "num_entries m = length (mt_data m)"

definition iter_all :: "memtable \<Rightarrow> (bytes \<times> mvalue) list" where
  "iter_all m = mt_data m"

definition clear :: "memtable \<Rightarrow> memtable" where
  "clear m = m\<lparr>mt_data := [], mt_size_bytes := 0\<rparr>"

text \<open>The mutating calls a client can make, and a run of them on a fresh memtable.\<close>

datatype mt_op = Put bytes bytes | Delete bytes | Clear

fun apply_op :: "(bytes \<Rightarrow> int) \<Rightarrow> memtable \<Rightarrow> mt_op \<Rightarrow> memtable" where
  "apply_op gs m (Put k v) = put gs m k v"
| "apply_op gs m (Delete k) = delete gs m k"
| "apply_op gs m Clear = clear m"

definition run_ops :: "(bytes \<Rightarrow> int) \<Rightarrow> int \<Rightarrow> mt_op list \<Rightarrow> memtable" where
  "run_ops gs max_size ops = foldl (apply_op gs) (Memtable_init max_size) ops"

text \<open>
  What a plain dictionary holds after the same calls: the reference the sorted container
  is compared with.
\<close>

fun dict_after :: "mt_op list \<Rightarrow> (bytes \<rightharpoonup> mvalue) \<Rightarrow> (bytes \<rightharpoonup> mvalue)" where
  "dict_after [] d = d"
| "dict_after (Put k v # ops) d = dict_after ops (d(k \<mapsto> Value v))"
| "dict_after (Delete k # ops) d = dict_after ops (d(k \<mapsto> TOMBSTONE))"
| "dict_after (Clear # ops) d = dict_after ops Map.empty"

section \<open>Properties of the memtable\<close>

lemma map_of_sd_setitem: "map_of (sd_setitem k v d) = (map_of d)(k \<mapsto> v)"
  by (induction d) (auto simp: fun_eq_iff)

lemma keys_sd_setitem: "set (map fst (sd_setitem k v d)) = insert k (set (map fst d))"
  using arg_cong [OF map_of_sd_setitem, of dom k v d]
  by (simp add: dom_map_of_conv_image_fst)

lemma sorted_sd_setitem:
  "sorted_wrt (<) (map fst d) \<Longrightarrow> sorted_wrt (<) (map fst (sd_setitem k v d))"
proof (induction d)
  case Nil
  then show ?case by simp
next
  case (Cons p d)
  obtain k' v' where p: "p = (k', v')" by (cases p)
  from Cons.prems p have tl: "sorted_wrt (<) (map fst d)" and hd: "\<forall>x\<in>set (map fst d). k' < x"
    by simp_all
  show ?case
  proof (cases "k < k'")
    case True
    with hd tl p show ?thesis by (auto intro: less_trans)
  next
    case False
    show ?thesis
    proof (cases "k = k'")
      case True
      with hd tl p show ?thesis by simp
    next
      case ne: False
      with False have "k' < k" by simp
      with hd tl p False ne Cons.IH [OF tl] show ?thesis
        by (simp add: keys_sd_setitem del: set_map)
    qed
  qed
qed

lemma sorted_apply_op:
  "sorted_wrt (<) (map fst (mt_data m)) \<Longrightarrow> sorted_wrt (<) (map fst (mt_data (apply_op gs m x)))"
  by (cases x) (simp_all add: put_def delete_def clear_def Let_def sorted_sd_setitem)

lemma sorted_foldl_ops:
  "sorted_wrt (<) (map fst (mt_data m)) \<Longrightarrow>
   sorted_wrt (<) (map fst (mt_data (foldl (apply_op gs) m ops)))"
  by (induction ops arbitrary: m) (simp_all add: sorted_apply_op)

lemma dict_foldl_ops:
  "map_of (mt_data (foldl (apply_op gs) m ops)) = dict_after ops (map_of (mt_data m))"
proof (induction ops arbitrary: m)
  case Nil
  show ?case by simp
next
  case (Cons x ops)
  show ?case
    by (cases x) (simp_all add: Cons.IH put_def delete_def clear_def Let_def map_of_sd_setitem fun_upd_def)
qed

lemma get_put_same: "get (put gs m k v) k = Some v"
  by (simp add: get_def put_def Let_def sd_get_def map_of_sd_setitem)

lemma get_delete_same: "get (delete gs m k) k = None"
  by (simp add: get_def delete_def Let_def sd_get_def map_of_sd_setitem)

text \<open>
  Claim C4, as the code has it. \<open>Memtable.get\<close> has two kinds of result, not three:
  after any run of puts, deletes and clears on a fresh memtable, \<open>get(k)\<close> is the
  value when the last write of \<open>k\<close> was a put, and \<open>None\<close> both when it was a delete
  and when \<open>k\<close> is not there. A value that was just put is returned, the empty value
  \<open>b""\<close> as the empty \<open>bytes\<close>, which is not \<open>None\<close>; a key that was just deleted
  gives \<open>None\<close>, as a key of a fresh memtable does.
\<close>

theorem memtable_get_outcomes:
  "get (run_ops gs mx ops) k =
      (case dict_after ops Map.empty k of
         Some (Value v) \<Rightarrow> Some v | Some TOMBSTONE \<Rightarrow> None | None \<Rightarrow> None)
   \<and> get (put gs (run_ops gs mx ops) k v) k = Some v
   \<and> get (put gs (run_ops gs mx ops) k []) k = Some []
   \<and> get (delete gs (run_ops gs mx ops) k) k = None
   \<and> get (Memtable_init mx) k = None"
proof -
  have "map_of (mt_data (run_ops gs mx ops)) = dict_after ops Map.empty"
    by (simp add: run_ops_def dict_foldl_ops Memtable_init_def)
  then have "get (run_ops gs mx ops) k =
      (case dict_after ops Map.empty k of
         Some (Value v) \<Rightarrow> Some v | Some TOMBSTONE \<Rightarrow> None | None \<Rightarrow> None)"
    by (simp add: get_def sd_get_def split: option.splits mvalue.splits)
  moreover have "get (Memtable_init mx) k = None"
    by (simp add: get_def sd_get_def Memtable_init_def)
  ultimately show ?thesis
    by (simp add: get_put_same get_delete_same)
qed

text \<open>
  Claim C4 as stated fails: the result for a deleted key is the result for a key that was
  never inserted.
\<close>

theorem memtable_get_deleted_counterexample:
  "get (delete (\<lambda>k. 33 + int (length k)) (Memtable_init DEFAULT_MAX_SIZE) [107]) [107] = None
   \<and> get (Memtable_init DEFAULT_MAX_SIZE) [107] = None"
  by (simp add: get_def delete_def Let_def sd_get_def Memtable_init_def)

text \<open>
  Claim C8: after any run of puts and deletes (and clears) on a fresh memtable, the keys
  that \<open>iter_all\<close> yields are strictly increasing in the lexicographic order on
  unsigned octets, so each key occurs at most once.
\<close>

theorem memtable_iter_sorted:
  "sorted_wrt (<) (map fst (iter_all (run_ops gs mx ops)))
   \<and> distinct (map fst (iter_all (run_ops gs mx ops)))"
proof -
  have s: "sorted_wrt (<) (map fst (iter_all (run_ops gs mx ops)))"
    by (simp add: iter_all_def run_ops_def sorted_foldl_ops Memtable_init_def)
  then have "distinct (map fst (iter_all (run_ops gs mx ops)))"
    by (simp add: strict_sorted_iff)
  with s show ?thesis by simp
qed


end
